theory Spec2Isabelle
  imports Complex_Main
begin

section \<open>Deep Q-learning on Cart-Pole: replay memory and training loop\<close>

text \<open>
  The development embeds the code cells of the notebook
  \<^verbatim>\<open>Additional/reinforcement/Q-learning-cart\<close>: the class \<^verbatim>\<open>Memory\<close>, the
  cell that populates the memory, and the training cell. Python floats are modelled
  by \<^typ>\<open>real\<close>, Python integers by \<^typ>\<open>int\<close> (sizes and counters that never go
  below zero by \<^typ>\<open>nat\<close>), raised exceptions by the left summand of a sum type.
\<close>

subsection \<open>Errors\<close>

text \<open>
  The exceptions the modelled cells can raise:
  \<^item> \<open>ValueError\<close>: raised by \<^verbatim>\<open>np.random.choice(..., replace=False)\<close> when the
    requested sample is larger than the population;
  \<^item> \<open>IndexError\<close>: raised by \<^verbatim>\<open>self.buffer[ii]\<close> for an index outside the deque;
  \<^item> \<open>NameError\<close>: raised when the variable \<^verbatim>\<open>loss\<close> is read before its first
    assignment;
  \<^item> \<open>EmptyBatchError\<close>: an empty mini-batch cannot be fed to the network
    (the fed array has shape \<^verbatim>\<open>(0,)\<close>, and \<^verbatim>\<open>states[0]\<close> does not exist).
\<close>

datatype error = ValueError | IndexError | NameError | EmptyBatchError

subsection \<open>The class \<^verbatim>\<open>Memory\<close>\<close>

text \<open>
  \<^verbatim>\<open>
  class Memory():
      def __init__(self, max_size = 1000):
          self.buffer = deque(maxlen=max_size)
      def add(self, experience):
          self.buffer.append(experience)
  \<close>
  A \<^verbatim>\<open>deque(maxlen=n)\<close> is a list together with its bound. \<^verbatim>\<open>append\<close> puts the
  item at the right end and, when the length then exceeds the bound, removes the
  leftmost item.
\<close>

record 'a Memory =
  buffer :: "'a list"
  maxlen :: nat

definition Memory_init :: "nat \<Rightarrow> 'a Memory" where
  "Memory_init max_size = \<lparr>buffer = [], maxlen = max_size\<rparr>"

definition deque_append :: "'a list \<Rightarrow> nat \<Rightarrow> 'a \<Rightarrow> 'a list" where
  "deque_append d n x = (let d' = d @ [x] in if n < length d' then tl d' else d')"

definition add :: "'a Memory \<Rightarrow> 'a \<Rightarrow> 'a Memory" where
  "add m experience = m\<lparr>buffer := deque_append (buffer m) (maxlen m) experience\<rparr>"

text \<open>A sequence of \<^verbatim>\<open>add\<close> calls, in order, on one memory.\<close>

definition add_all :: "'a Memory \<Rightarrow> 'a list \<Rightarrow> 'a Memory" where
  "add_all m xs = foldl add m xs"

text \<open>
  \<^verbatim>\<open>
      def sample(self, batch_size):
          idx = np.random.choice(np.arange(len(self.buffer)),
                                 size=batch_size,
                                 replace=False)
          return [self.buffer[ii] for ii in idx]
  \<close>
  NumPy is a library outside the repository. \<^verbatim>\<open>np.random.choice\<close> over
  \<^verbatim>\<open>np.arange(n)\<close> with \<^verbatim>\<open>replace=False\<close> is modelled by its contract: it raises
  \<^verbatim>\<open>ValueError\<close> when the requested size exceeds the population size \<open>n\<close>, and
  otherwise returns the first \<open>k\<close> entries of a permutation of \<open>0, \<dots>, n - 1\<close>
  drawn by the generator. The drawn permutation is the parameter \<open>perm\<close>: the model
  is a function of the random draw. The requested size \<open>k\<close> is a count (\<^typ>\<open>nat\<close>).
  Requesting zero items from an empty population yields the empty sample here; NumPy
  releases differ on that one corner (some reject an empty population outright).
\<close>

definition np_random_choice :: "nat list \<Rightarrow> nat \<Rightarrow> nat \<Rightarrow> error + nat list" where
  "np_random_choice perm pop_size k =
     (if pop_size < k then Inl ValueError else Inr (take k perm))"

text \<open>What the generator may draw for a population of \<open>n\<close>: the permutations of \<open>0, \<dots>, n - 1\<close>.\<close>

definition is_permutation :: "nat \<Rightarrow> nat list \<Rightarrow> bool" where
  "is_permutation n perm \<longleftrightarrow> distinct perm \<and> set perm = {..<n}"

definition sample :: "'a Memory \<Rightarrow> nat list \<Rightarrow> nat \<Rightarrow> error + 'a list" where
  "sample m perm batch_size =
     (case np_random_choice perm (length (buffer m)) batch_size of
        Inl e \<Rightarrow> Inl e
      | Inr idx \<Rightarrow>
          if list_all (\<lambda>ii. ii < length (buffer m)) idx
          then Inr (map (\<lambda>ii. buffer m ! ii) idx)
          else Inl IndexError)"

subsection \<open>Hyperparameters and collaborators\<close>

text \<open>
  The hyperparameter cell. \<^verbatim>\<open>hidden_size\<close> and \<^verbatim>\<open>learning_rate\<close> only reach the
  network, which is a collaborator here.
\<close>

record config =
  train_episodes :: int
  max_steps :: int
  gamma :: real
  explore_start :: real
  explore_stop :: real
  decay_rate :: real
  memory_size :: nat
  batch_size :: nat
  pretrain_length :: nat

definition notebook_config :: config where
  "notebook_config =
     \<lparr>train_episodes = 1000, max_steps = 200, gamma = 99 / 100,
      explore_start = 1, explore_stop = 1 / 100, decay_rate = 1 / 10000,
      memory_size = 10000, batch_size = 20, pretrain_length = 20\<rparr>"

text \<open>
  A state of the simulation is a vector of floats; an experience is the tuple
  \<^verbatim>\<open>(state, action, reward, next_state)\<close>.
\<close>

type_synonym obs = "real list"
type_synonym experience = "obs \<times> int \<times> real \<times> obs"

text \<open>
  The gym environment, the random generators and the TensorFlow session are outside
  the repository. They are taken as parameters: functions on a state \<open>'w\<close> of the
  outside world (simulator, generator state, network weights).
  \<^item> \<open>env_reset\<close>: \<^verbatim>\<open>env.reset()\<close> (the code discards the returned state);
  \<^item> \<open>env_step\<close>: \<^verbatim>\<open>env.step(action)\<close>, giving \<^verbatim>\<open>(next_state, reward, done)\<close>;
  \<^item> \<open>action_space_sample\<close>: \<^verbatim>\<open>env.action_space.sample()\<close>;
  \<^item> \<open>random_rand\<close>: \<^verbatim>\<open>np.random.rand()\<close>;
  \<^item> \<open>random_permutation\<close>: the permutation drawn inside \<^verbatim>\<open>np.random.choice\<close>;
  \<^item> \<open>q_output\<close>: \<^verbatim>\<open>sess.run(mainQN.output, ...)\<close> on one state; \<^verbatim>\<open>mainQN\<close> is built
    with \<^verbatim>\<open>action_size=2\<close>, so a row of the output is a pair;
  \<^item> \<open>q_update\<close>: \<^verbatim>\<open>sess.run([mainQN.loss, mainQN.opt], ...)\<close> on states, targets and
    actions, giving the loss.
\<close>

record 'w collaborators =
  env_reset :: "'w \<Rightarrow> 'w"
  env_step :: "'w \<Rightarrow> int \<Rightarrow> (obs \<times> real \<times> bool) \<times> 'w"
  action_space_sample :: "'w \<Rightarrow> int \<times> 'w"
  random_rand :: "'w \<Rightarrow> real \<times> 'w"
  random_permutation :: "'w \<Rightarrow> nat \<Rightarrow> nat list \<times> 'w"
  q_output :: "'w \<Rightarrow> obs \<Rightarrow> real \<times> real"
  q_update :: "'w \<Rightarrow> obs list \<Rightarrow> real list \<Rightarrow> int list \<Rightarrow> real \<times> 'w"

definition np_zeros :: "nat \<Rightarrow> obs" where
  "np_zeros n = replicate n 0"

text \<open>\<^verbatim>\<open>np.argmax\<close> on a row of two values: the first index of the maximum.\<close>

definition np_argmax :: "real \<times> real \<Rightarrow> int" where
  "np_argmax Qs = (if fst Qs < snd Qs then 1 else 0)"

text \<open>\<^verbatim>\<open>range(a, b)\<close>.\<close>

definition range_py :: "int \<Rightarrow> int \<Rightarrow> int list" where
  "range_py a b = [a..b - 1]"

subsection \<open>Populating the memory\<close>

text \<open>
  \<^verbatim>\<open>
  for ii in range(pretrain_length):
      action = env.action_space.sample()
      next_state, reward, done, _ = env.step(action)
      if done:
          next_state = np.zeros(state.shape)
          memory.add((state, action, reward, next_state))
          env.reset()
          state, reward, done, _ = env.step(env.action_space.sample())
      else:
          memory.add((state, action, reward, next_state))
          state = next_state
  \<close>
  The loop state is the outside world, the memory and the variable \<^verbatim>\<open>state\<close>.
  \<open>pretrain_observe\<close> is the first two lines of the body.
\<close>

definition pretrain_observe ::
  "'w collaborators \<Rightarrow> 'w \<Rightarrow> int \<times> obs \<times> real \<times> bool \<times> 'w" where
  "pretrain_observe co w =
     (let (action, w1) = action_space_sample co w;
          ((next_state, reward, done), w2) = env_step co w1 action
      in (action, next_state, reward, done, w2))"

definition pretrain_body ::
  "'w collaborators \<Rightarrow> 'w \<times> experience Memory \<times> obs \<Rightarrow> 'w \<times> experience Memory \<times> obs" where
  "pretrain_body co = (\<lambda>(w, memory, state).
     let (action, next_state, reward, done, w2) = pretrain_observe co w
     in if done then
          let next_state = np_zeros (length state);
              memory = add memory (state, action, reward, next_state);
              w3 = env_reset co w2;
              (a', w4) = action_space_sample co w3;
              ((state, reward, done), w5) = env_step co w4 a'
          in (w5, memory, state)
        else
          let memory = add memory (state, action, reward, next_state);
              state = next_state
          in (w2, memory, state))"

fun pretrain_loop ::
  "'w collaborators \<Rightarrow> nat \<Rightarrow> 'w \<times> experience Memory \<times> obs \<Rightarrow> 'w \<times> experience Memory \<times> obs" where
  "pretrain_loop co 0 x = x"
| "pretrain_loop co (Suc n) x = pretrain_loop co n (pretrain_body co x)"

text \<open>
  The whole cell: reset, one random step, a fresh memory, then the loop.
\<close>

definition populate ::
  "'w collaborators \<Rightarrow> config \<Rightarrow> 'w \<Rightarrow> 'w \<times> experience Memory \<times> obs" where
  "populate co cfg w =
     (let w1 = env_reset co w;
          (a, w2) = action_space_sample co w1;
          ((state, reward, done), w3) = env_step co w2 a;
          memory = Memory_init (memory_size cfg)
      in pretrain_loop co (pretrain_length cfg) (w3, memory, state))"

subsection \<open>Training\<close>

text \<open>
  \<^verbatim>\<open>
  explore_p = explore_stop + (explore_start - explore_stop)*np.exp(-decay_rate*step)
  \<close>
\<close>

definition explore_prob :: "real \<Rightarrow> real \<Rightarrow> real \<Rightarrow> nat \<Rightarrow> real" where
  "explore_prob p_stop p_start rate step_count =
     p_stop + (p_start - p_stop) * exp (- rate * real step_count)"

text \<open>
  The variables of the training cell that live across steps: the outside world, the
  memory and \<^verbatim>\<open>state\<close> left by the populating cell, the global \<^verbatim>\<open>step\<close> counter,
  \<^verbatim>\<open>loss\<close> (unbound, \<open>None\<close>, until the first network update assigns it),
  \<^verbatim>\<open>rewards_list\<close>, and the lines printed so far, each with its four numbers
  (episode, total reward, training loss, exploration probability).
\<close>

record 'w train_state =
  world :: 'w
  memory :: "experience Memory"
  state :: obs
  step :: nat
  loss :: "real option"
  rewards_list :: "(int \<times> real) list"
  printed :: "(int \<times> real \<times> real \<times> real) list"

text \<open>
  \<^verbatim>\<open>
  if explore_p > np.random.rand():
      action = env.action_space.sample()
  else:
      feed = {mainQN.inputs_: state.reshape((1, *state.shape))}
      Qs = sess.run(mainQN.output, feed_dict=feed)
      action = np.argmax(Qs)
  \<close>
  The function also returns \<^verbatim>\<open>explore_p\<close>, which the step prints later.
\<close>

definition select_action ::
  "'w collaborators \<Rightarrow> config \<Rightarrow> 'w train_state \<Rightarrow> real \<times> int \<times> 'w" where
  "select_action co cfg s =
     (let explore_p = explore_prob (explore_stop cfg) (explore_start cfg) (decay_rate cfg) (step s);
          (u, w1) = random_rand co (world s)
      in if explore_p > u then
           let (action, w2) = action_space_sample co w1 in (explore_p, action, w2)
         else
           let Qs = q_output co w1 (state s) in (explore_p, np_argmax Qs, w1))"

text \<open>
  The chosen action is submitted to the simulator:
  \<^verbatim>\<open>next_state, reward, done, _ = env.step(action)\<close>.
\<close>

definition observe ::
  "'w collaborators \<Rightarrow> config \<Rightarrow> 'w train_state \<Rightarrow> real \<times> int \<times> obs \<times> real \<times> bool \<times> 'w" where
  "observe co cfg s =
     (let (explore_p, action, w1) = select_action co cfg s;
          ((next_state, reward, done), w2) = env_step co w1 action
      in (explore_p, action, next_state, reward, done, w2))"

text \<open>
  The first half of the body of the \<^verbatim>\<open>while\<close> loop, up to the bookkeeping of the
  \<^verbatim>\<open>if done: ... else: ...\<close> statement. The local variables \<^verbatim>\<open>t\<close> and
  \<^verbatim>\<open>total_reward\<close> travel with the state.
  \<^verbatim>\<open>
  step += 1
  ...
  total_reward += reward
  if done:
      next_state = np.zeros(state.shape)
      t = max_steps
      print('Episode: {}'.format(ep),
            'Total reward: {}'.format(total_reward),
            'Training loss: {:.4f}'.format(loss),
            'Explore P: {:.4f}'.format(explore_p))
      rewards_list.append((ep, total_reward))
      memory.add((state, action, reward, next_state))
      env.reset()
      state, reward, done, _ = env.step(env.action_space.sample())
  else:
      memory.add((state, action, reward, next_state))
      state = next_state
      t += 1
  \<close>
\<close>

definition interact ::
  "'w collaborators \<Rightarrow> config \<Rightarrow> int \<Rightarrow> int \<times> real \<times> 'w train_state
     \<Rightarrow> error + (int \<times> real \<times> 'w train_state)" where
  "interact co cfg ep = (\<lambda>(t, total_reward, s0).
     let s = s0\<lparr>step := step s0 + 1\<rparr>;
         (explore_p, action, next_state, reward, done, w2) = observe co cfg s;
         total_reward = total_reward + reward
     in if done then
          let next_state = np_zeros (length (state s));
              t = max_steps cfg
          in case loss s of
               None \<Rightarrow> Inl NameError
             | Some l \<Rightarrow>
                 let s = s\<lparr>printed := printed s @ [(ep, total_reward, l, explore_p)]\<rparr>;
                     s = s\<lparr>rewards_list := rewards_list s @ [(ep, total_reward)]\<rparr>;
                     s = s\<lparr>memory := add (memory s) (state s, action, reward, next_state)\<rparr>;
                     w3 = env_reset co w2;
                     (a', w4) = action_space_sample co w3;
                     ((state', reward', done'), w5) = env_step co w4 a'
                 in Inr (t, total_reward, s\<lparr>world := w5, state := state'\<rparr>)
        else
          let s = s\<lparr>memory := add (memory s) (state s, action, reward, next_state)\<rparr>
          in Inr (t + 1, total_reward, s\<lparr>world := w2, state := next_state\<rparr>))"

text \<open>
  An exception ends the cell, but the notebook's variables keep the values assigned
  before it. \<open>interact_vars\<close> gives the variables as the first half of the body
  leaves them, whether it completes or raises at the \<^verbatim>\<open>print\<close>: in the latter case
  \<^verbatim>\<open>step\<close>, \<^verbatim>\<open>total_reward\<close> and \<^verbatim>\<open>t\<close> have been assigned and the simulator has
  moved, while \<^verbatim>\<open>rewards_list\<close>, the memory and \<^verbatim>\<open>state\<close> are untouched.
\<close>

definition interact_vars ::
  "'w collaborators \<Rightarrow> config \<Rightarrow> int \<Rightarrow> int \<times> real \<times> 'w train_state
     \<Rightarrow> int \<times> real \<times> 'w train_state" where
  "interact_vars co cfg ep = (\<lambda>(t, total_reward, s0).
     let s = s0\<lparr>step := step s0 + 1\<rparr>;
         (explore_p, action, next_state, reward, done, w2) = observe co cfg s;
         total_reward = total_reward + reward;
         s = s\<lparr>world := w2\<rparr>
     in if done then
          let next_state = np_zeros (length (state s));
              t = max_steps cfg
          in case loss s of
               None \<Rightarrow> (t, total_reward, s)
             | Some l \<Rightarrow>
                 let s = s\<lparr>printed := printed s @ [(ep, total_reward, l, explore_p)]\<rparr>;
                     s = s\<lparr>rewards_list := rewards_list s @ [(ep, total_reward)]\<rparr>;
                     s = s\<lparr>memory := add (memory s) (state s, action, reward, next_state)\<rparr>;
                     w3 = env_reset co w2;
                     (a', w4) = action_space_sample co w3;
                     ((state', reward', done'), w5) = env_step co w4 a'
                 in (t, total_reward, s\<lparr>world := w5, state := state'\<rparr>)
        else
          let s = s\<lparr>memory := add (memory s) (state s, action, reward, next_state)\<rparr>
          in (t + 1, total_reward, s\<lparr>state := next_state\<rparr>))"

text \<open>
  \<^verbatim>\<open>
  target_Qs = sess.run(mainQN.output, feed_dict={mainQN.inputs_: next_states})
  episode_ends = (next_states == np.zeros(states[0].shape)).all(axis=1)
  target_Qs[episode_ends] = (0, 0)
  targets = rewards + gamma * np.max(target_Qs, axis=1)
  \<close>
  All states of one environment have the same shape, so the comparison with
  \<^verbatim>\<open>np.zeros(states[0].shape)\<close> compares every component of a row with zero.
\<close>

definition compute_targets ::
  "'w collaborators \<Rightarrow> 'w \<Rightarrow> real \<Rightarrow> experience list \<Rightarrow> real list" where
  "compute_targets co w gam batch =
     (let rewards = map (\<lambda>(s, a, r, ns). r) batch;
          next_states = map (\<lambda>(s, a, r, ns). ns) batch;
          target_Qs = map (q_output co w) next_states;
          episode_ends = map (list_all (\<lambda>x. x = 0)) next_states;
          target_Qs = map2 (\<lambda>e q. if e then (0, 0) else q) episode_ends target_Qs
      in map2 (\<lambda>r q. r + gam * max (fst q) (snd q)) rewards target_Qs)"

text \<open>
  The second half of the body: sample a mini-batch, compute the targets, update the
  network, assign \<^verbatim>\<open>loss\<close>.
  \<^verbatim>\<open>
  batch = memory.sample(batch_size)
  states = np.array([each[0] for each in batch])
  actions = np.array([each[1] for each in batch])
  ...
  loss, _ = sess.run([mainQN.loss, mainQN.opt],
                     feed_dict={mainQN.inputs_: states,
                                mainQN.targetQs_: targets,
                                mainQN.actions_: actions})
  \<close>
\<close>

definition learn ::
  "'w collaborators \<Rightarrow> config \<Rightarrow> 'w train_state \<Rightarrow> error + 'w train_state" where
  "learn co cfg s =
     (let (perm, w1) = random_permutation co (world s) (length (buffer (memory s)))
      in case sample (memory s) perm (batch_size cfg) of
           Inl e \<Rightarrow> Inl e
         | Inr batch \<Rightarrow>
             if batch = [] then Inl EmptyBatchError
             else
               let states = map (\<lambda>(s, a, r, ns). s) batch;
                   actions = map (\<lambda>(s, a, r, ns). a) batch;
                   targets = compute_targets co w1 (gamma cfg) batch;
                   (l, w2) = q_update co w1 states targets actions
               in Inr (s\<lparr>world := w2, loss := Some l\<rparr>))"

text \<open>
  The body of the \<^verbatim>\<open>while\<close> loop is the two halves in sequence; an exception in
  either ends the run. The loops:
  \<^verbatim>\<open>
  step = 0
  for ep in range(1, train_episodes):
      total_reward = 0
      t = 0
      while t < max_steps:
          ...
  \<close>
  The \<^verbatim>\<open>while\<close> loop terminates: a step either adds one to \<^verbatim>\<open>t\<close> or sets it to
  \<^verbatim>\<open>max_steps\<close>.
\<close>

definition train_body ::
  "'w collaborators \<Rightarrow> config \<Rightarrow> int \<Rightarrow> int \<times> real \<times> 'w train_state
     \<Rightarrow> error + (int \<times> real \<times> 'w train_state)" where
  "train_body co cfg ep x =
     (case interact co cfg ep x of
        Inl e \<Rightarrow> Inl e
      | Inr (t, total_reward, s) \<Rightarrow>
          (case learn co cfg s of
             Inl e \<Rightarrow> Inl e
           | Inr s' \<Rightarrow> Inr (t, total_reward, s')))"

function train_while ::
  "'w collaborators \<Rightarrow> config \<Rightarrow> int \<Rightarrow> int \<times> real \<times> 'w train_state
     \<Rightarrow> error + 'w train_state" where
  "train_while co cfg ep (t, total_reward, s) =
     (if t < max_steps cfg then
        (case train_body co cfg ep (t, total_reward, s) of
           Inl e \<Rightarrow> Inl e
         | Inr x \<Rightarrow> train_while co cfg ep x)
      else Inr s)"
  by pat_completeness auto
termination
proof (relation "measure (\<lambda>(co, cfg, ep, t, total_reward, s). nat (max_steps cfg - t))")
  show "wf (measure (\<lambda>(co :: 'w collaborators, cfg, ep :: int, t, total_reward :: real, s :: 'w train_state).
          nat (max_steps cfg - t)))"
    by simp
next
  fix co :: "'w collaborators" and cfg ep t total_reward and s :: "'w train_state" and x
  assume lt: "t < max_steps cfg"
    and body: "train_body co cfg ep (t, total_reward, s) = Inr x"
  obtain t' r' s' where x: "x = (t', r', s')" by (cases x)
  from body have "t' = t + 1 \<or> t' = max_steps cfg"
    unfolding train_body_def interact_def x
    by (auto simp: Let_def split: sum.splits prod.splits if_splits option.splits)
  with lt show "((co, cfg, ep, x), (co, cfg, ep, t, total_reward, s))
      \<in> measure (\<lambda>(co, cfg, ep, t, total_reward, s). nat (max_steps cfg - t))"
    by (auto simp: x)
qed

fun train_for ::
  "'w collaborators \<Rightarrow> config \<Rightarrow> int list \<Rightarrow> 'w train_state \<Rightarrow> error + 'w train_state" where
  "train_for co cfg [] s = Inr s"
| "train_for co cfg (ep # eps) s =
     (let total_reward = 0; t = 0
      in case train_while co cfg ep (t, total_reward, s) of
           Inl e \<Rightarrow> Inl e
         | Inr s' \<Rightarrow> train_for co cfg eps s')"

text \<open>
  The training cell starts from the variables the populating cell left, with
  \<^verbatim>\<open>step = 0\<close> and \<^verbatim>\<open>rewards_list = []\<close>; in a fresh kernel \<^verbatim>\<open>loss\<close> is unbound and
  nothing has been printed.
\<close>

definition train_init :: "'w \<times> experience Memory \<times> obs \<Rightarrow> 'w train_state" where
  "train_init = (\<lambda>(w, mem, st).
     \<lparr>world = w, memory = mem, state = st, step = 0, loss = None,
      rewards_list = [], printed = []\<rparr>)"

definition train ::
  "'w collaborators \<Rightarrow> config \<Rightarrow> 'w \<times> experience Memory \<times> obs \<Rightarrow> error + 'w train_state" where
  "train co cfg x = train_for co cfg (range_py 1 (train_episodes cfg)) (train_init x)"

text \<open>The populating cell followed by the training cell, in a fresh kernel.\<close>

definition program :: "'w collaborators \<Rightarrow> config \<Rightarrow> 'w \<Rightarrow> error + 'w train_state" where
  "program co cfg w = train co cfg (populate co cfg w)"

subsection \<open>Concrete collaborators\<close>

text \<open>
  Two small deterministic worlds, used to run the model on concrete inputs. In the
  first the simulator always returns the all-zero state and never reports the episode
  done, and the network predicts the values \<open>(1, 2)\<close> for every state. In the second
  the simulator reports every step done.
\<close>

definition zero_state_env :: "unit collaborators" where
  "zero_state_env =
     \<lparr>env_reset = (\<lambda>w. w),
      env_step = (\<lambda>w a. (([0, 0, 0, 0], 1, False), w)),
      action_space_sample = (\<lambda>w. (0, w)),
      random_rand = (\<lambda>w. (0, w)),
      random_permutation = (\<lambda>w n. ([0..<n], w)),
      q_output = (\<lambda>w s. (1, 2)),
      q_update = (\<lambda>w states targets actions. (0, w))\<rparr>"

definition always_done_env :: "unit collaborators" where
  "always_done_env =
     \<lparr>env_reset = (\<lambda>w. w),
      env_step = (\<lambda>w a. (([1, 2, 3, 4], 1, True), w)),
      action_space_sample = (\<lambda>w. (0, w)),
      random_rand = (\<lambda>w. (0, w)),
      random_permutation = (\<lambda>w n. ([0..<n], w)),
      q_output = (\<lambda>w s. (1, 2)),
      q_update = (\<lambda>w states targets actions. (0, w))\<rparr>"

text \<open>
  A third world: the simulator reports every step done, and the loss returned by a
  network update is the sum of the targets it was given.
\<close>

definition done_sum_env :: "unit collaborators" where
  "done_sum_env =
     \<lparr>env_reset = (\<lambda>w. w),
      env_step = (\<lambda>w a. (([1, 2, 3, 4], 1, True), w)),
      action_space_sample = (\<lambda>w. (0, w)),
      random_rand = (\<lambda>w. (0, w)),
      random_permutation = (\<lambda>w n. ([0..<n], w)),
      q_output = (\<lambda>w s. (1, 2)),
      q_update = (\<lambda>w states targets actions. (sum_list targets, w))\<rparr>"

text \<open>
  The notebook's hyperparameters with short episodes and a small memory, and without
  decay of the exploration probability.
\<close>

definition short_config :: config where
  "short_config =
     \<lparr>train_episodes = 3, max_steps = 2, gamma = 99 / 100,
      explore_start = 1, explore_stop = 1 / 100, decay_rate = 0,
      memory_size = 5, batch_size = 2, pretrain_length = 2\<rparr>"

subsection \<open>Properties of \<^verbatim>\<open>Memory.add\<close>\<close>

lemma maxlen_add [simp]: "maxlen (add m x) = maxlen m"
  by (simp add: add_def)

lemma length_add:
  "length (buffer (add m x)) =
     (if length (buffer m) < maxlen m then Suc (length (buffer m)) else length (buffer m))"
  by (simp add: add_def deque_append_def)

lemma length_add_ge: "length (buffer m) \<le> length (buffer (add m x))"
  by (simp add: length_add)

lemma maxlen_add_all [simp]: "maxlen (add_all m xs) = maxlen m"
  unfolding add_all_def by (induction xs arbitrary: m) simp_all

lemma add_all_snoc: "add_all m (xs @ [x]) = add (add_all m xs) x"
  by (simp add: add_all_def)

lemma buffer_add_all_init:
  assumes "1 \<le> C"
  shows "buffer (add_all (Memory_init C) xs) = drop (length xs - C) xs"
proof (induction xs rule: rev_induct)
  case Nil
  show ?case by (simp add: add_all_def Memory_init_def)
next
  case (snoc x xs)
  have ml: "maxlen (add_all (Memory_init C :: 'a Memory) xs) = C"
    by (simp add: Memory_init_def)
  show ?case
  proof (cases "length xs < C")
    case True
    with snoc ml show ?thesis
      by (simp add: add_all_snoc add_def deque_append_def)
  next
    case False
    then have le: "C \<le> length xs" by simp
    have "tl (drop (length xs - C) xs @ [x]) = drop (Suc (length xs) - C) xs @ [x]"
    proof -
      from le assms have "length xs - C < length xs" by simp
      then have "drop (length xs - C) xs \<noteq> []" by simp
      then have "tl (drop (length xs - C) xs @ [x]) = tl (drop (length xs - C) xs) @ [x]"
        by simp
      also have "tl (drop (length xs - C) xs) = drop (Suc (length xs - C)) xs"
        by (simp add: drop_Suc tl_drop)
      also from le have "Suc (length xs - C) = Suc (length xs) - C" by simp
      finally show ?thesis .
    qed
    with snoc ml le assms show ?thesis
      by (simp add: add_all_snoc add_def deque_append_def)
  qed
qed

text \<open>
  Claim C1. Let a memory be created with capacity \<open>C \<ge> 1\<close> and let any sequence
  \<open>xs\<close> of items be added to it. Every \<^verbatim>\<open>add\<close> returns (the model is a total
  function without an error result); the buffer never holds more than \<open>C\<close> items;
  it always holds the last \<open>C\<close> added items in insertion order, so that after
  \<open>C + n\<close> additions with \<open>n \<ge> 1\<close> it is exactly the last \<open>C\<close> items; and one
  more \<^verbatim>\<open>add\<close> on a full buffer drops exactly the oldest item and appends the new
  one.
\<close>

theorem Memory_add_fifo:
  assumes "1 \<le> C"
  shows "length (buffer (add_all (Memory_init C) xs)) \<le> C
       \<and> buffer (add_all (Memory_init C) xs) = drop (length xs - C) xs
       \<and> (\<forall>n\<ge>1. length xs = C + n \<longrightarrow>
             buffer (add_all (Memory_init C) xs) = drop n xs
           \<and> length (buffer (add_all (Memory_init C) xs)) = C)
       \<and> (length (buffer (add_all (Memory_init C) xs)) = C \<longrightarrow>
             buffer (add (add_all (Memory_init C) xs) x)
               = tl (buffer (add_all (Memory_init C) xs)) @ [x])"
proof -
  let ?m = "add_all (Memory_init C :: 'a Memory) xs"
  have b: "buffer ?m = drop (length xs - C) xs"
    by (rule buffer_add_all_init [OF assms])
  have ml: "maxlen ?m = C" by (simp add: Memory_init_def)
  have 1: "length (buffer ?m) \<le> C" by (simp add: b)
  have 3: "\<forall>n\<ge>1. length xs = C + n \<longrightarrow> buffer ?m = drop n xs \<and> length (buffer ?m) = C"
    by (simp add: b)
  have 4: "length (buffer ?m) = C \<longrightarrow> buffer (add ?m x) = tl (buffer ?m) @ [x]"
  proof
    assume full: "length (buffer ?m) = C"
    with assms have "buffer ?m \<noteq> []" by auto
    with full ml show "buffer (add ?m x) = tl (buffer ?m) @ [x]"
      by (simp add: add_def deque_append_def)
  qed
  from 1 b 3 4 show ?thesis by blast
qed

theorem Memory_add_fifo_witness:
  "(1::nat) \<le> 3 \<and> (1::nat) \<le> 2 \<and> length [1, 2, 3, 4, 5 :: nat] = 3 + 2
   \<and> buffer (add_all (Memory_init 3) [1, 2, 3, 4, 5 :: nat]) = [3, 4, 5]
   \<and> length (buffer (add_all (Memory_init 3) [1, 2, 3, 4, 5 :: nat])) = 3
   \<and> buffer (add (add_all (Memory_init 3) [1, 2, 3, 4, 5 :: nat]) 6) = [4, 5, 6]"
proof -
  note w = Memory_add_fifo [of 3 "[1, 2, 3, 4, 5 :: nat]" 6]
  from w have b: "buffer (add_all (Memory_init 3) [1, 2, 3, 4, 5 :: nat]) = [3, 4, 5]"
    by simp
  with w have "buffer (add (add_all (Memory_init 3) [1, 2, 3, 4, 5 :: nat]) 6) = [4, 5, 6]"
    by simp
  with b show ?thesis by simp
qed

subsection \<open>Properties of \<^verbatim>\<open>Memory.sample\<close>\<close>

lemma is_permutation_length: "is_permutation n perm \<Longrightarrow> length perm = n"
  unfolding is_permutation_def using distinct_card [of perm] by auto

lemma card_distinct_lists_of_set:
  assumes "finite B"
  shows "card {q. distinct q \<and> set q = B} = fact (card B)"
proof -
  have "{q. distinct q \<and> set q = B} = {xs. length xs = card B \<and> distinct xs \<and> set xs \<subseteq> B}"
    (is "?L = ?R")
  proof (intro set_eqI iffI)
    fix q assume "q \<in> ?L"
    then show "q \<in> ?R" using distinct_card [of q] by auto
  next
    fix q assume q: "q \<in> ?R"
    then have "card (set q) = card B" by (simp add: distinct_card)
    with q assms have "set q = B" by (simp add: card_subset_eq)
    with q show "q \<in> ?L" by simp
  qed
  moreover have "card ?R = \<Prod>{card B - card B + 1 .. card B}"
    by (rule card_lists_distinct_length_eq [OF assms]) simp
  ultimately show ?thesis by (simp add: fact_prod)
qed

lemma card_permutations_with_prefix:
  assumes idx: "distinct idx" "set idx \<subseteq> {..<n}" "length idx = k"
  shows "card {p. is_permutation n p \<and> take k p = idx} = fact (n - k)"
proof -
  let ?B = "{..<n} - set idx"
  let ?T = "{q. distinct q \<and> set q = ?B}"
  have cardB: "card ?B = n - k"
    using idx by (simp add: card_Diff_subset distinct_card)
  have "{p. is_permutation n p \<and> take k p = idx} = (\<lambda>q. idx @ q) ` ?T" (is "?S = _")
  proof (intro set_eqI iffI)
    fix p assume "p \<in> ?S"
    then have p: "distinct p" "set p = {..<n}" "take k p = idx"
      by (simp_all add: is_permutation_def)
    have split: "p = idx @ drop k p"
      using p(3) append_take_drop_id [of k p] by simp
    from p(1) split have d: "distinct (drop k p)" "set idx \<inter> set (drop k p) = {}"
      by (metis distinct_append)+
    from p(2) split have "set idx \<union> set (drop k p) = {..<n}"
      by (metis set_append)
    with d have "set (drop k p) = ?B" by auto
    with d split show "p \<in> (\<lambda>q. idx @ q) ` ?T" by blast
  next
    fix p assume "p \<in> (\<lambda>q. idx @ q) ` ?T"
    then obtain q where q: "p = idx @ q" "distinct q" "set q = ?B" by auto
    with idx show "p \<in> ?S" by (auto simp: is_permutation_def)
  qed
  moreover have "inj_on (\<lambda>q. idx @ q) ?T" by (simp add: inj_on_def)
  ultimately have "card {p. is_permutation n p \<and> take k p = idx} = card ?T"
    by (simp add: card_image)
  also have "\<dots> = fact (card ?B)"
    by (rule card_distinct_lists_of_set) simp
  finally show ?thesis by (simp add: cardB)
qed

lemma sample_too_many:
  "length (buffer m) < k \<Longrightarrow> sample m perm k = Inl ValueError"
  by (simp add: sample_def np_random_choice_def)

lemma sample_enough:
  assumes perm: "is_permutation (length (buffer m)) perm" and k: "k \<le> length (buffer m)"
  shows "sample m perm k = Inr (map (\<lambda>ii. buffer m ! ii) (take k perm))"
    and "length (take k perm) = k"
    and "distinct (take k perm)"
    and "set (take k perm) \<subseteq> {..<length (buffer m)}"
proof -
  from perm have len: "length perm = length (buffer m)" by (rule is_permutation_length)
  from perm have sub: "set (take k perm) \<subseteq> {..<length (buffer m)}"
    unfolding is_permutation_def using set_take_subset [of k perm] by auto
  then have "list_all (\<lambda>ii. ii < length (buffer m)) (take k perm)"
    by (auto simp: list_all_iff)
  with k show "sample m perm k = Inr (map (\<lambda>ii. buffer m ! ii) (take k perm))"
    by (simp add: sample_def np_random_choice_def)
  from len k show "length (take k perm) = k" by simp
  from perm show "distinct (take k perm)" by (simp add: is_permutation_def)
  from sub show "set (take k perm) \<subseteq> {..<length (buffer m)}" .
qed

text \<open>
  Claim C2. Let \<open>perm\<close> be the permutation of the buffer positions drawn by the
  generator. If \<open>k\<close> is at most the current size, \<^verbatim>\<open>sample(k)\<close> returns exactly \<open>k\<close>
  entries of the buffer, taken at \<open>k\<close> pairwise distinct positions (no entry is drawn
  twice; the values are pairwise distinct whenever the buffer's entries are), each
  present in the buffer. If \<open>k\<close> exceeds the current size, it fails with the error of
  \<^verbatim>\<open>np.random.choice\<close> for an insufficient population. The draw is uniform: every
  sequence of \<open>k\<close> distinct positions is the outcome of the same number,
  \<open>(size - k)!\<close>, of the equally likely permutations.
\<close>

theorem sample_valid:
  assumes "is_permutation (length (buffer m)) perm"
  shows "(k \<le> length (buffer m) \<longrightarrow>
           (\<exists>idx. sample m perm k = Inr (map (\<lambda>ii. buffer m ! ii) idx)
                \<and> np_random_choice perm (length (buffer m)) k = Inr idx
                \<and> length idx = k \<and> distinct idx \<and> set idx \<subseteq> {..<length (buffer m)}
                \<and> length (map (\<lambda>ii. buffer m ! ii) idx) = k
                \<and> set (map (\<lambda>ii. buffer m ! ii) idx) \<subseteq> set (buffer m)
                \<and> (distinct (buffer m) \<longrightarrow> distinct (map (\<lambda>ii. buffer m ! ii) idx))))
       \<and> (length (buffer m) < k \<longrightarrow> sample m perm k = Inl ValueError)
       \<and> (\<forall>idx. length idx = k \<and> distinct idx \<and> set idx \<subseteq> {..<length (buffer m)} \<longrightarrow>
             card {p. is_permutation (length (buffer m)) p
                      \<and> np_random_choice p (length (buffer m)) k = Inr idx}
               = fact (length (buffer m) - k))"
proof (intro conjI impI allI)
  assume k: "k \<le> length (buffer m)"
  let ?idx = "take k perm"
  note s = sample_enough [OF assms k]
  have mem: "set (map (\<lambda>ii. buffer m ! ii) ?idx) \<subseteq> set (buffer m)"
    using s(4) by auto
  have dist: "distinct (buffer m) \<longrightarrow> distinct (map (\<lambda>ii. buffer m ! ii) ?idx)"
  proof
    assume d: "distinct (buffer m)"
    have "inj_on (\<lambda>ii. buffer m ! ii) (set ?idx)"
    proof (rule inj_onI)
      fix x y assume "x \<in> set ?idx" "y \<in> set ?idx" "buffer m ! x = buffer m ! y"
      with s(4) have "x < length (buffer m)" "y < length (buffer m)"
        and eq: "buffer m ! x = buffer m ! y" by auto
      with d show "x = y" by (simp add: nth_eq_iff_index_eq)
    qed
    with s(3) show "distinct (map (\<lambda>ii. buffer m ! ii) ?idx)"
      by (simp add: distinct_map)
  qed
  have c: "np_random_choice perm (length (buffer m)) k = Inr ?idx"
    using k by (simp add: np_random_choice_def)
  from s c mem dist
  show "\<exists>idx. sample m perm k = Inr (map (\<lambda>ii. buffer m ! ii) idx)
                \<and> np_random_choice perm (length (buffer m)) k = Inr idx
                \<and> length idx = k \<and> distinct idx \<and> set idx \<subseteq> {..<length (buffer m)}
                \<and> length (map (\<lambda>ii. buffer m ! ii) idx) = k
                \<and> set (map (\<lambda>ii. buffer m ! ii) idx) \<subseteq> set (buffer m)
                \<and> (distinct (buffer m) \<longrightarrow> distinct (map (\<lambda>ii. buffer m ! ii) idx))"
    by (intro exI [of _ ?idx]) simp
next
  assume "length (buffer m) < k"
  then show "sample m perm k = Inl ValueError" by (rule sample_too_many)
next
  fix idx
  assume a: "length idx = k \<and> distinct idx \<and> set idx \<subseteq> {..<length (buffer m)}"
  then have "k \<le> length (buffer m)"
    using distinct_card [of idx] card_mono [of "{..<length (buffer m)}" "set idx"] by auto
  then have "{p. is_permutation (length (buffer m)) p
                \<and> np_random_choice p (length (buffer m)) k = Inr idx}
           = {p. is_permutation (length (buffer m)) p \<and> take k p = idx}"
    by (auto simp: np_random_choice_def)
  with a show "card {p. is_permutation (length (buffer m)) p
                      \<and> np_random_choice p (length (buffer m)) k = Inr idx}
               = fact (length (buffer m) - k)"
    by (simp add: card_permutations_with_prefix)
qed

theorem sample_valid_witness:
  "is_permutation (length (buffer (add_all (Memory_init 3) ''abcde''))) [2, 0, 1]
   \<and> (2::nat) \<le> length (buffer (add_all (Memory_init 3) ''abcde''))
   \<and> sample (add_all (Memory_init 3) ''abcde'') [2, 0, 1] 2 = Inr ''ec''
   \<and> length (buffer (add_all (Memory_init 3) ''abcde'')) < 4
   \<and> sample (add_all (Memory_init 3) ''abcde'') [2, 0, 1] 4 = Inl ValueError
   \<and> distinct (buffer (add_all (Memory_init 3) ''abcde''))
   \<and> length [2, 0 :: nat] = 2 \<and> distinct [2, 0 :: nat] \<and> set [2, 0 :: nat] \<subseteq> {..<3}
   \<and> card {p. is_permutation 3 p \<and> np_random_choice p 3 2 = Inr [2, 0]} = 1"
proof -
  let ?m = "add_all (Memory_init 3) ''abcde''"
  have b: "buffer ?m = ''cde''"
    by (simp add: add_all_def add_def deque_append_def Memory_init_def)
  have p: "is_permutation (length (buffer ?m)) [2, 0, 1]"
    unfolding b is_permutation_def by auto
  note v2 = sample_valid [OF p, of 2, unfolded b]
  note v4 = sample_valid [OF p, of 4, unfolded b]
  from v2 obtain idx where
    "sample ?m [2, 0, 1] 2 = Inr (map (\<lambda>ii. ''cde'' ! ii) idx)"
    "np_random_choice [2, 0, 1] (length ''cde'') 2 = Inr idx"
    by auto
  then have s2: "sample ?m [2, 0, 1] 2 = Inr ''ec''"
    by (auto simp: np_random_choice_def)
  from v4 have s4: "sample ?m [2, 0, 1] 4 = Inl ValueError" by simp
  from v2 have "\<forall>idx. length idx = 2 \<and> distinct idx \<and> set idx \<subseteq> {..<length ''cde''} \<longrightarrow>
      card {p. is_permutation (length ''cde'') p \<and> np_random_choice p (length ''cde'') 2 = Inr idx}
        = fact (length ''cde'' - 2)"
    by blast
  from this [rule_format, of "[2, 0]"]
  have c: "card {p. is_permutation 3 p \<and> np_random_choice p 3 2 = Inr [2, 0]} = 1"
    by (simp add: numeral_3_eq_3)
  from p s2 s4 c show ?thesis by (simp add: b)
qed

subsection \<open>The exploration probability\<close>






subsection \<open>Targets\<close>

lemma length_compute_targets [simp]: "length (compute_targets co w g batch) = length batch"
  by (simp add: compute_targets_def)

lemma list_all_zero_iff: "list_all (\<lambda>x. x = 0) ns \<longleftrightarrow> ns = np_zeros (length ns)"
  unfolding np_zeros_def list_all_iff
  by (metis (full_types) in_set_replicate replicate_length_same)

lemma compute_targets_nth:
  assumes "i < length batch" and "batch ! i = (s, a, r, ns)"
  shows "compute_targets co w g batch ! i =
           (if list_all (\<lambda>x. x = 0) ns then r
            else r + g * max (fst (q_output co w ns)) (snd (q_output co w ns)))"
  using assms by (simp add: compute_targets_def)

text \<open>
  Claim C3, as amended. For every transition of a sampled mini-batch, with reward \<open>r\<close>
  and stored next state \<open>ns\<close>: if \<open>ns\<close> is not the all-zero vector, the target is
  \<open>r + gamma * v\<close>, where \<open>v\<close> is the larger of the two values predicted for \<open>ns\<close>;
  if \<open>ns\<close> is the all-zero vector, as it is for every terminal transition, the target
  is \<open>r\<close>.
\<close>

theorem target_by_stored_next_state:
  assumes "i < length batch" and "batch ! i = (s, a, r, ns)"
  shows "(ns \<noteq> np_zeros (length ns) \<longrightarrow>
            compute_targets co w g batch ! i
              = r + g * max (fst (q_output co w ns)) (snd (q_output co w ns)))
       \<and> (ns = np_zeros n \<longrightarrow> compute_targets co w g batch ! i = r)"
proof (intro conjI impI)
  assume "ns \<noteq> np_zeros (length ns)"
  then have "\<not> list_all (\<lambda>x. x = 0) ns" by (simp add: list_all_zero_iff)
  with assms show "compute_targets co w g batch ! i
      = r + g * max (fst (q_output co w ns)) (snd (q_output co w ns))"
    by (simp add: compute_targets_nth)
next
  assume "ns = np_zeros n"
  then have "list_all (\<lambda>x. x = 0) ns" by (simp add: np_zeros_def list_all_iff)
  with assms show "compute_targets co w g batch ! i = r"
    by (simp add: compute_targets_nth)
qed

theorem target_by_stored_next_state_witness:
  "(0::nat) < length [([1, 0, 0, 0], 0, 1, [0, 1, 0, 0]), ([1 :: real, 0, 0, 0], 1 :: int, 1 :: real, [0 :: real, 0, 0, 0])]
   \<and> [0 :: real, 1, 0, 0] \<noteq> np_zeros (length [0 :: real, 1, 0, 0])
   \<and> compute_targets zero_state_env () (99 / 100)
        [([1, 0, 0, 0], 0, 1, [0, 1, 0, 0]), ([1, 0, 0, 0], 1, 1, [0, 0, 0, 0])] ! 0 = 1 + 99 / 100 * 2
   \<and> [0 :: real, 0, 0, 0] = np_zeros (length [1 :: real, 0, 0, 0])
   \<and> compute_targets zero_state_env () (99 / 100)
        [([1, 0, 0, 0], 0, 1, [0, 1, 0, 0]), ([1, 0, 0, 0], 1, 1, [0, 0, 0, 0])] ! 1 = 1"
  using target_by_stored_next_state [of 0 "[([1, 0, 0, 0], 0, 1, [0, 1, 0, 0]), ([1, 0, 0, 0], 1, 1, [0, 0, 0, 0])]"
      "[1, 0, 0, 0]" 0 1 "[0, 1, 0, 0]" zero_state_env "()" "99 / 100"]
    target_by_stored_next_state [of 1 "[([1, 0, 0, 0], 0, 1, [0, 1, 0, 0]), ([1, 0, 0, 0], 1, 1, [0, 0, 0, 0])]"
      "[1, 0, 0, 0]" 1 1 "[0, 0, 0, 0]" zero_state_env "()" "99 / 100" 4]
  by (simp add: np_zeros_def zero_state_env_def numeral_eq_Suc)

text \<open>
  Claim C3 as stated fails for a non-terminal transition whose next state is all
  zero. In the world \<open>zero_state_env\<close> the simulator returns the state
  \<open>[0, 0, 0, 0]\<close> with \<open>done = False\<close>; the populating step stores the transition
  unchanged; its reward is \<open>1\<close> and the predicted values of its next state are
  \<open>(1, 2)\<close>, but its target is \<open>1\<close>, not \<open>1 + 0.99 * 2\<close>.
\<close>

theorem target_nonterminal_counterexample:
  "pretrain_observe zero_state_env () = (0, [0, 0, 0, 0], 1, False, ())
   \<and> buffer (fst (snd (pretrain_body zero_state_env ((), Memory_init 1, [1, 0, 0, 0]))))
       = [([1, 0, 0, 0], 0, 1, [0, 0, 0, 0])]
   \<and> compute_targets zero_state_env () (99 / 100) [([1, 0, 0, 0], 0, 1, [0, 0, 0, 0])] = [1]
   \<and> [1 :: real] \<noteq> [1 + 99 / 100 * max (fst (q_output zero_state_env () [0, 0, 0, 0]))
                                         (snd (q_output zero_state_env () [0, 0, 0, 0]))]"
  by (simp add: pretrain_observe_def pretrain_body_def zero_state_env_def compute_targets_def
      add_def deque_append_def Memory_init_def)

text \<open>
  Claim C9. The target of a sampled transition depends on its stored next state only
  through the test whether every component is zero: if the next state equals the
  all-zero vector, whether or not the episode ended there, the target is the reward
  \<open>r\<close> (the predicted values are replaced by zeros); otherwise it is
  \<open>r + gamma * v\<close>.
\<close>

theorem terminality_by_zero_test:
  assumes "i < length batch" and "batch ! i = (s, a, r, ns)"
  shows "compute_targets co w g batch ! i =
           (if ns = np_zeros (length ns) then r
            else r + g * max (fst (q_output co w ns)) (snd (q_output co w ns)))"
  using assms by (simp add: compute_targets_nth list_all_zero_iff)

theorem terminality_by_zero_test_witness:
  "(1::nat) < length [([1 :: real, 0, 0, 0], 0 :: int, 1 :: real, [0 :: real, 0, 0, 0]),
                      ([1, 0, 0, 0], 1, 1, [0, 3, 0, 0])]
   \<and> compute_targets zero_state_env () (99 / 100)
        [([1, 0, 0, 0], 0, 1, [0, 0, 0, 0]), ([1, 0, 0, 0], 1, 1, [0, 3, 0, 0])] ! 0 = 1
   \<and> compute_targets zero_state_env () (99 / 100)
        [([1, 0, 0, 0], 0, 1, [0, 0, 0, 0]), ([1, 0, 0, 0], 1, 1, [0, 3, 0, 0])] ! 1
       = 1 + 99 / 100 * 2"
  using terminality_by_zero_test [of 0
      "[([1, 0, 0, 0], 0, 1, [0, 0, 0, 0]), ([1, 0, 0, 0], 1, 1, [0, 3, 0, 0])]"
      "[1, 0, 0, 0]" 0 1 "[0, 0, 0, 0]" zero_state_env "()" "99 / 100"]
    terminality_by_zero_test [of 1
      "[([1, 0, 0, 0], 0, 1, [0, 0, 0, 0]), ([1, 0, 0, 0], 1, 1, [0, 3, 0, 0])]"
      "[1, 0, 0, 0]" 1 1 "[0, 3, 0, 0]" zero_state_env "()" "99 / 100"]
  by (simp add: np_zeros_def zero_state_env_def numeral_eq_Suc)

subsection \<open>The steps of the two loops\<close>

lemma pretrain_body_done:
  assumes "pretrain_observe co w = (action, next_state, reward, True, w2)"
  shows "fst (snd (pretrain_body co (w, mem, st)))
           = add mem (st, action, reward, np_zeros (length st))"
  using assms by (simp add: pretrain_body_def Let_def split: prod.splits)

lemma pretrain_body_not_done:
  assumes "pretrain_observe co w = (action, next_state, reward, False, w2)"
  shows "pretrain_body co (w, mem, st) = (w2, add mem (st, action, reward, next_state), next_state)"
  using assms by (simp add: pretrain_body_def Let_def)

lemma interact_done:
  assumes "observe co cfg (s\<lparr>step := step s + 1\<rparr>) = (p, action, next_state, reward, True, w2)"
    and "interact co cfg ep (t, total_reward, s) = Inr (t', total_reward', s')"
  shows "memory s' = add (memory s) (state s, action, reward, np_zeros (length (state s)))"
    and "t' = max_steps cfg"
    and "total_reward' = total_reward + reward"
    and "rewards_list s' = rewards_list s @ [(ep, total_reward + reward)]"
    and "\<exists>l. loss s = Some l \<and> printed s' = printed s @ [(ep, total_reward + reward, l, p)]"
    and "loss s' = loss s"
    and "step s' = step s + 1"
  using assms
  by (auto simp: interact_def Let_def split: prod.splits option.splits)

lemma interact_done_unbound:
  assumes "observe co cfg (s\<lparr>step := step s + 1\<rparr>) = (p, action, next_state, reward, True, w2)"
    and "loss s = None"
  shows "interact co cfg ep (t, total_reward, s) = Inl NameError"
  using assms by (simp add: interact_def Let_def)

lemma interact_not_done:
  assumes "observe co cfg (s\<lparr>step := step s + 1\<rparr>) = (p, action, next_state, reward, False, w2)"
  shows "interact co cfg ep (t, total_reward, s) =
           Inr (t + 1, total_reward + reward,
                s\<lparr>step := step s + 1,
                  memory := add (memory s) (state s, action, reward, next_state),
                  world := w2, state := next_state\<rparr>)"
  using assms by (simp add: interact_def Let_def)

lemma interact_done_eq:
  assumes "observe co cfg (s\<lparr>step := step s + 1\<rparr>) = (p, action, next_state, reward, True, w2)"
    and "loss s = Some l"
    and "action_space_sample co (env_reset co w2) = (a', w4)"
    and "env_step co w4 a' = ((state', reward', done'), w5)"
  shows "interact co cfg ep (t, total_reward, s)
       = Inr (max_steps cfg, total_reward + reward,
              s\<lparr>step := step s + 1,
                printed := printed s @ [(ep, total_reward + reward, l, p)],
                rewards_list := rewards_list s @ [(ep, total_reward + reward)],
                memory := add (memory s) (state s, action, reward, np_zeros (length (state s))),
                world := w5, state := state'\<rparr>)"
  using assms by (simp add: interact_def Let_def)

lemma interact_Inr_vars:
  "interact co cfg ep x = Inr y \<Longrightarrow> interact_vars co cfg ep x = y"
  by (cases x)
     (auto simp: interact_def interact_vars_def Let_def
       split: prod.splits option.splits if_splits)

lemma interact_vars_unbound:
  assumes "observe co cfg (s\<lparr>step := step s + 1\<rparr>) = (p, action, next_state, reward, True, w2)"
    and "loss s = None"
  shows "interact_vars co cfg ep (t, total_reward, s)
       = (max_steps cfg, total_reward + reward, s\<lparr>step := step s + 1, world := w2\<rparr>)"
  using assms by (simp add: interact_vars_def Let_def)

lemma interact_loss:
  "interact co cfg ep (t, total_reward, s) = Inr (t', total_reward', s') \<Longrightarrow> loss s' = loss s"
  by (auto simp: interact_def Let_def split: prod.splits option.splits if_splits)

text \<open>
  Claim C7. In the populating loop and in the training loop alike, a step at which the
  simulator reports \<open>done = True\<close> appends to the memory the transition
  \<open>(state, action, reward, zeros)\<close>, where \<open>zeros\<close> is the all-zero vector of the
  length of \<open>state\<close>, whatever next state the simulator returned.
\<close>

theorem terminal_sentinel:
  "(pretrain_observe co w = (action, next_state, reward, True, w2) \<longrightarrow>
      fst (snd (pretrain_body co (w, mem, st)))
        = add mem (st, action, reward, np_zeros (length st)))
   \<and> (observe co cfg (s\<lparr>step := step s + 1\<rparr>) = (p, action', next_state', reward', True, w2')
        \<and> interact co cfg ep (t, total_reward, s) = Inr (t', total_reward', s') \<longrightarrow>
      memory s' = add (memory s) (state s, action', reward', np_zeros (length (state s))))
   \<and> length (np_zeros n) = n \<and> list_all (\<lambda>x. x = 0) (np_zeros n)"
  using pretrain_body_done [of co w action next_state reward w2 mem st]
    interact_done(1) [of co cfg s p action' next_state' reward' w2' ep t total_reward t' total_reward' s']
  by (simp add: np_zeros_def list_all_iff)


theorem terminal_sentinel_witness:
  "pretrain_observe always_done_env () = (0, [1, 2, 3, 4], 1, True, ())
   \<and> fst (snd (pretrain_body always_done_env ((), Memory_init 5, [5, 6, 7, 8])))
       = add (Memory_init 5) ([5, 6, 7, 8], 0, 1, [0, 0, 0, 0])
   \<and> observe always_done_env short_config
        (\<lparr>world = (), memory = Memory_init 5, state = [5, 6, 7, 8], step = 0, loss = Some 3,
          rewards_list = [], printed = []\<rparr>\<lparr>step := 0 + 1\<rparr>) = (1, 0, [1, 2, 3, 4], 1, True, ())
   \<and> interact always_done_env short_config 1
        (0, 0, \<lparr>world = (), memory = Memory_init 5, state = [5, 6, 7, 8], step = 0, loss = Some 3,
          rewards_list = [], printed = []\<rparr>)
       = Inr (2, 1, \<lparr>world = (), memory = add (Memory_init 5) ([5, 6, 7, 8], 0, 1, [0, 0, 0, 0]),
                     state = [1, 2, 3, 4], step = 1, loss = Some 3,
                     rewards_list = [(1, 1)], printed = [(1, 1, 3, 1)]\<rparr>)"
proof -
  let ?s = "\<lparr>world = (), memory = Memory_init 5, state = [5, 6, 7, 8], step = 0, loss = Some 3,
          rewards_list = [], printed = []\<rparr> :: unit train_state"
  have po: "pretrain_observe always_done_env () = (0, [1, 2, 3, 4], 1, True, ())"
    by (simp add: pretrain_observe_def always_done_env_def)
  have ob: "observe always_done_env short_config (?s\<lparr>step := step ?s + 1\<rparr>)
      = (1, 0, [1, 2, 3, 4], 1, True, ())"
    by (simp add: observe_def select_action_def explore_prob_def always_done_env_def
        short_config_def)
  have it: "interact always_done_env short_config 1 (0, 0, ?s)
      = Inr (2, 1, \<lparr>world = (), memory = add (Memory_init 5) ([5, 6, 7, 8], 0, 1, [0, 0, 0, 0]),
                     state = [1, 2, 3, 4], step = 1, loss = Some 3,
                     rewards_list = [(1, 1)], printed = [(1, 1, 3, 1)]\<rparr>)"
    unfolding interact_def
    by (simp add: ob [simplified]) (simp add: always_done_env_def short_config_def np_zeros_def)
  note w = terminal_sentinel [of always_done_env "()" 0 "[1, 2, 3, 4]" 1 "()" "Memory_init 5"
      "[5, 6, 7, 8]" short_config ?s 1 0 "[1, 2, 3, 4]" 1 "()" 1 0 0 2 1 _ 4]
  from w po have "fst (snd (pretrain_body always_done_env ((), Memory_init 5, [5, 6, 7, 8])))
       = add (Memory_init 5) ([5, 6, 7, 8], 0, 1, [0, 0, 0, 0])"
    by (simp add: np_zeros_def)
  with po ob it show ?thesis by simp
qed

subsection \<open>The size of the memory during training\<close>

lemma sample_ValueError_iff:
  "sample m perm k = Inl ValueError \<longleftrightarrow> length (buffer m) < k"
  by (simp add: sample_def np_random_choice_def)

lemma pretrain_body_adds:
  "\<exists>e. fst (snd (pretrain_body co (w, mem, st))) = add mem e"
  by (cases "pretrain_observe co w")
     (auto simp: pretrain_body_def Let_def split: prod.splits)

lemma pretrain_loop_size:
  assumes "k \<le> maxlen mem" and "k \<le> length (buffer mem) + n"
  shows "k \<le> length (buffer (fst (snd (pretrain_loop co n (w, mem, st)))))
       \<and> maxlen (fst (snd (pretrain_loop co n (w, mem, st)))) = maxlen mem"
  using assms
proof (induction n arbitrary: w mem st)
  case 0
  then show ?case by simp
next
  case (Suc n)
  obtain w' mem' st' where b: "pretrain_body co (w, mem, st) = (w', mem', st')"
    by (cases "pretrain_body co (w, mem, st)")
  from pretrain_body_adds [of co w mem st] b obtain e where e: "mem' = add mem e"
    by auto
  have ml: "maxlen mem' = maxlen mem" by (simp add: e)
  have "k \<le> length (buffer mem') + n"
    using Suc.prems by (simp add: e length_add)
  with Suc.IH [of mem' w' st'] Suc.prems(1) ml show ?case
    by (simp add: b)
qed

lemma populate_size:
  assumes "k \<le> memory_size cfg" and "k \<le> pretrain_length cfg"
  shows "k \<le> length (buffer (fst (snd (populate co cfg w))))"
proof -
  obtain a w2 where a: "action_space_sample co (env_reset co w) = (a, w2)"
    by (cases "action_space_sample co (env_reset co w)")
  obtain st r d w3 where st: "env_step co w2 a = ((st, r, d), w3)"
    by (cases "env_step co w2 a") auto
  have "populate co cfg w
      = pretrain_loop co (pretrain_length cfg) (w3, Memory_init (memory_size cfg), st)"
    by (simp add: populate_def a st)
  moreover have "k \<le> length (buffer (fst (snd
      (pretrain_loop co (pretrain_length cfg) (w3, Memory_init (memory_size cfg), st)))))"
    using assms pretrain_loop_size [of k "Memory_init (memory_size cfg)" "pretrain_length cfg" co w3 st]
    by (simp add: Memory_init_def)
  ultimately show ?thesis by simp
qed

lemma learn_memory:
  "learn co cfg s = Inr s' \<Longrightarrow> memory s' = memory s"
  by (auto simp: learn_def Let_def split: prod.splits sum.splits if_splits)

lemma learn_ValueError_iff:
  "learn co cfg s = Inl ValueError \<longleftrightarrow> length (buffer (memory s)) < batch_size cfg"
  by (auto simp: learn_def Let_def sample_def np_random_choice_def
      split: prod.splits sum.splits if_splits)

lemma interact_adds:
  assumes "interact co cfg ep (t, total_reward, s) = Inr (t', total_reward', s')"
  shows "\<exists>e. memory s' = add (memory s) e"
proof -
  obtain p a ns r d w2 where
    ob: "observe co cfg (s\<lparr>step := step s + 1\<rparr>) = (p, a, ns, r, d, w2)"
    by (cases "observe co cfg (s\<lparr>step := step s + 1\<rparr>)")
  show ?thesis
  proof (cases d)
    case True
    with ob have "observe co cfg (s\<lparr>step := step s + 1\<rparr>) = (p, a, ns, r, True, w2)"
      by simp
    from interact_done(1) [OF this assms] show ?thesis ..
  next
    case False
    with interact_not_done [of co cfg s p a ns r w2 ep t total_reward] ob assms
    have "memory s' = add (memory s) (state s, a, r, ns)" by auto
    then show ?thesis ..
  qed
qed

lemma interact_no_ValueError:
  "interact co cfg ep x \<noteq> Inl ValueError"
  by (cases x) (auto simp: interact_def Let_def split: prod.splits option.splits if_splits)

lemma train_body_size:
  assumes "batch_size cfg \<le> length (buffer (memory s))"
  shows "train_body co cfg ep (t, total_reward, s) \<noteq> Inl ValueError"
    and "train_body co cfg ep (t, total_reward, s) = Inr (t', total_reward', s')
           \<Longrightarrow> batch_size cfg \<le> length (buffer (memory s'))"
proof -
  show "train_body co cfg ep (t, total_reward, s) \<noteq> Inl ValueError"
  proof (cases "interact co cfg ep (t, total_reward, s)")
    case (Inl e)
    with interact_no_ValueError [of co cfg ep "(t, total_reward, s)"] show ?thesis
      by (simp add: train_body_def)
  next
    case (Inr y)
    obtain t1 r1 s1 where y: "y = (t1, r1, s1)" by (cases y)
    from interact_adds [OF Inr [unfolded y]] obtain e where "memory s1 = add (memory s) e" ..
    with assms have "batch_size cfg \<le> length (buffer (memory s1))"
      using length_add_ge [of "memory s" e] by simp
    then have "learn co cfg s1 \<noteq> Inl ValueError"
      by (simp add: learn_ValueError_iff)
    with Inr y show ?thesis
      by (auto simp: train_body_def split: sum.splits)
  qed
next
  assume b: "train_body co cfg ep (t, total_reward, s) = Inr (t', total_reward', s')"
  then obtain s1 where i: "interact co cfg ep (t, total_reward, s) = Inr (t', total_reward', s1)"
    and l: "learn co cfg s1 = Inr s'"
    by (auto simp: train_body_def split: sum.splits)
  from interact_adds [OF i] obtain e where "memory s1 = add (memory s) e" ..
  with assms have "batch_size cfg \<le> length (buffer (memory s1))"
    using length_add_ge [of "memory s" e] by simp
  with learn_memory [OF l] show "batch_size cfg \<le> length (buffer (memory s'))" by simp
qed

lemma train_while_size:
  assumes "batch_size cfg \<le> length (buffer (memory (snd (snd x))))"
  shows "train_while co cfg ep x \<noteq> Inl ValueError
       \<and> (\<forall>s'. train_while co cfg ep x = Inr s' \<longrightarrow> batch_size cfg \<le> length (buffer (memory s')))"
  using assms
proof (induction co cfg ep x rule: train_while.induct)
  case (1 co cfg ep t total_reward s)
  show ?case
  proof (cases "t < max_steps cfg")
    case False
    with "1.prems" show ?thesis by simp
  next
    case True
    show ?thesis
    proof (cases "train_body co cfg ep (t, total_reward, s)")
      case (Inl e)
      with train_body_size(1) [of cfg s co ep t total_reward] "1.prems" True
      show ?thesis by simp
    next
      case (Inr y)
      obtain t1 r1 s1 where y: "y = (t1, r1, s1)" by (cases y)
      from "1.prems" have "batch_size cfg \<le> length (buffer (memory s))" by simp
      from train_body_size(2) [OF this Inr [unfolded y]]
      have "batch_size cfg \<le> length (buffer (memory (snd (snd y))))" by (simp add: y)
      from "1.IH" [OF True Inr this] True Inr show ?thesis by simp
    qed
  qed
qed

lemma train_for_size:
  assumes "batch_size cfg \<le> length (buffer (memory s))"
  shows "train_for co cfg eps s \<noteq> Inl ValueError"
  using assms
proof (induction eps arbitrary: s)
  case Nil
  then show ?case by simp
next
  case (Cons ep eps)
  from train_while_size [of cfg "(0, 0, s)" co ep] Cons.prems
  have w: "train_while co cfg ep (0, 0, s) \<noteq> Inl ValueError"
    and w': "\<And>s'. train_while co cfg ep (0, 0, s) = Inr s'
        \<Longrightarrow> batch_size cfg \<le> length (buffer (memory s'))"
    by simp_all
  show ?case
  proof (cases "train_while co cfg ep (0, 0, s)")
    case (Inl e)
    with w show ?thesis by simp
  next
    case (Inr s')
    with Cons.IH [OF w' [OF Inr]] show ?thesis by simp
  qed
qed

text \<open>
  Claim C8. When the memory capacity is at least the batch size and the populating
  loop appends \<open>pretrain_length = batch_size\<close> transitions, as in the notebook's
  configuration (capacity 10000, batch size 20), the memory holds at least
  \<open>batch_size\<close> transitions when training starts, \<^verbatim>\<open>add\<close> never shrinks it, and so
  no call of \<^verbatim>\<open>memory.sample(batch_size)\<close> in the training loop fails for an
  insufficient population: the run never ends in that \<open>ValueError\<close>.
\<close>

theorem sample_population_sufficient:
  assumes "batch_size cfg \<le> memory_size cfg" and "pretrain_length cfg = batch_size cfg"
  shows "batch_size cfg \<le> length (buffer (fst (snd (populate co cfg w))))
       \<and> program co cfg w \<noteq> Inl ValueError"
proof -
  from assms have p: "batch_size cfg \<le> length (buffer (fst (snd (populate co cfg w))))"
    by (simp add: populate_size)
  obtain w1 mem st where x: "populate co cfg w = (w1, mem, st)"
    by (cases "populate co cfg w")
  from p have "batch_size cfg \<le> length (buffer (memory (train_init (w1, mem, st))))"
    by (simp add: x train_init_def)
  then have "train co cfg (w1, mem, st) \<noteq> Inl ValueError"
    unfolding train_def by (rule train_for_size)
  with p show ?thesis by (simp add: program_def x)
qed

theorem sample_population_sufficient_witness:
  "batch_size notebook_config \<le> memory_size notebook_config
   \<and> pretrain_length notebook_config = batch_size notebook_config
   \<and> batch_size notebook_config = 20
   \<and> 20 \<le> length (buffer (fst (snd (populate zero_state_env notebook_config ()))))
   \<and> program zero_state_env notebook_config () \<noteq> Inl ValueError"
proof -
  have h: "batch_size notebook_config \<le> memory_size notebook_config"
    "pretrain_length notebook_config = batch_size notebook_config"
    by (simp_all add: notebook_config_def)
  have b: "batch_size notebook_config = 20" by (simp add: notebook_config_def)
  from sample_population_sufficient [OF h, of zero_state_env "()"] h b show ?thesis
    by simp
qed

subsection \<open>Episodes and the episode log\<close>

lemma range_py_Cons: "a < b \<Longrightarrow> range_py a b = a # range_py (a + 1) b"
  by (simp add: range_py_def upto_rec1)

lemma length_range_py: "length (range_py a b) = nat (b - a)"
  by (simp add: range_py_def)

lemma set_range_py: "set (range_py a b) = {a..<b}"
  by (auto simp: range_py_def)

lemma learn_keeps_log:
  assumes "learn co cfg s = Inr s'"
  shows "printed s' = printed s" and "rewards_list s' = rewards_list s"
    and "\<exists>l. loss s' = Some l"
  using assms
  by (auto simp: learn_def Let_def split: prod.splits sum.splits if_splits)

lemma learn_concrete:
  assumes "2 \<le> length (buffer (memory s))"
    and "co = zero_state_env \<or> co = always_done_env"
  shows "learn co short_config s = Inr (s\<lparr>world := (), loss := Some 0\<rparr>)"
proof -
  let ?b = "buffer (memory s)"
  from assms(1) have "length ?b = Suc (Suc (length ?b - 2))" by simp
  then obtain n where n: "length ?b = Suc (Suc n)" ..
  have t: "take 2 [0..<length ?b] = [0, 1]"
    unfolding n by (simp add: numeral_2_eq_2 upt_rec)
  have "sample (memory s) [0..<length ?b] 2 = Inr [?b ! 0, ?b ! 1]"
    using assms(1) by (auto simp: sample_def np_random_choice_def t)
  with assms(2) show ?thesis
    by (auto simp: learn_def zero_state_env_def always_done_env_def short_config_def)
qed

text \<open>
  Claim C5 says that the episode index ranges over \<open>[1, M]\<close> and that exactly
  \<open>M = train_episodes\<close> episodes are run. The loop is
  \<^verbatim>\<open>for ep in range(1, train_episodes)\<close>: its indices are \<open>1, \<dots>, M - 1\<close>, so it runs
  \<open>M - 1\<close> episodes and never the episode \<open>M\<close>; with the notebook's
  \<open>train_episodes = 1000\<close> these are the 999 episodes \<open>1, \<dots>, 999\<close>.
\<close>

theorem training_episode_indices:
  "range_py 1 (train_episodes notebook_config) = [1..999]
   \<and> length (range_py 1 (train_episodes notebook_config)) = 999
   \<and> 1000 \<notin> set (range_py 1 (train_episodes notebook_config))
   \<and> length (range_py 1 M) = nat (M - 1)
   \<and> set (range_py 1 M) = {1..<M}
   \<and> train co cfg x = train_for co cfg [1..train_episodes cfg - 1] (train_init x)"
  by (simp add: length_range_py set_range_py notebook_config_def)
     (simp add: range_py_def train_def)

lemma learn_result:
  assumes "random_permutation co (world s) (length (buffer (memory s))) = (perm, w1)"
    and "learn co cfg s = Inr s'"
  shows "\<exists>batch. sample (memory s) perm (batch_size cfg) = Inr batch
           \<and> s' = s\<lparr>world := snd (q_update co w1 (map (\<lambda>(s, a, r, ns). s) batch)
                                  (compute_targets co w1 (gamma cfg) batch)
                                  (map (\<lambda>(s, a, r, ns). a) batch)),
                    loss := Some (fst (q_update co w1 (map (\<lambda>(s, a, r, ns). s) batch)
                                  (compute_targets co w1 (gamma cfg) batch)
                                  (map (\<lambda>(s, a, r, ns). a) batch)))\<rparr>"
  using assms
  by (auto simp: learn_def Let_def split: prod.splits sum.splits if_splits)

lemma train_body_Inr:
  assumes "train_body co cfg ep (t, total_reward, s) = Inr (t', total_reward', s')"
  obtains s1 where "interact co cfg ep (t, total_reward, s) = Inr (t', total_reward', s1)"
    and "learn co cfg s1 = Inr s'"
  using assms by (auto simp: train_body_def split: sum.splits)

lemma observe_done_sum:
  "observe done_sum_env short_config s = (1, 0, [1, 2, 3, 4], 1, True, ())"
  by (simp add: observe_def select_action_def explore_prob_def done_sum_env_def
      short_config_def)

lemma learn_done_sum:
  assumes "buffer (memory s) = e1 # e2 # es"
  shows "learn done_sum_env short_config s
       = Inr (s\<lparr>world := (),
                loss := Some (sum_list (compute_targets done_sum_env () (99 / 100) [e1, e2]))\<rparr>)"
proof -
  have t: "take 2 [0..<length (e1 # e2 # es)] = [0, 1]"
    by (simp add: numeral_2_eq_2 upt_rec)
  have "sample (memory s) [0..<length (buffer (memory s))] 2 = Inr [e1, e2]"
    unfolding assms sample_def np_random_choice_def t by simp
  then show ?thesis
    by (simp add: learn_def done_sum_env_def short_config_def)
qed

lemma train_body_done_sum:
  assumes "buffer (memory s) = e1 # es" and "length es < 4" and "maxlen (memory s) = 5"
    and "loss s = Some l"
  shows "train_body done_sum_env short_config ep (t, total_reward, s)
       = Inr (2, total_reward + 1,
              s\<lparr>step := step s + 1,
                printed := printed s @ [(ep, total_reward + 1, l, 1)],
                rewards_list := rewards_list s @ [(ep, total_reward + 1)],
                memory := (memory s)\<lparr>buffer :=
                  e1 # es @ [(state s, 0, 1, np_zeros (length (state s)))]\<rparr>,
                world := (), state := [1, 2, 3, 4],
                loss := Some (sum_list (compute_targets done_sum_env () (99 / 100)
                          [e1, hd (es @ [(state s, 0, 1, np_zeros (length (state s)))])]))\<rparr>)"
proof -
  let ?x = "(state s, 0 :: int, 1 :: real, np_zeros (length (state s)))"
  have a: "action_space_sample done_sum_env (env_reset done_sum_env ()) = (0, ())"
    and e: "env_step done_sum_env () 0 = (([1, 2, 3, 4], 1, True), ())"
    by (simp_all add: done_sum_env_def)
  have m: "add (memory s) ?x = (memory s)\<lparr>buffer := e1 # es @ [?x]\<rparr>"
    using assms(1,2,3) by (simp add: add_def deque_append_def)
  have ms: "max_steps short_config = 2" by (simp add: short_config_def)
  let ?s1 = "s\<lparr>step := step s + 1,
                printed := printed s @ [(ep, total_reward + 1, l, 1)],
                rewards_list := rewards_list s @ [(ep, total_reward + 1)],
                memory := (memory s)\<lparr>buffer := e1 # es @ [?x]\<rparr>,
                world := (), state := [1, 2, 3, 4]\<rparr>"
  have i: "interact done_sum_env short_config ep (t, total_reward, s)
      = Inr (2, total_reward + 1, ?s1)"
    unfolding interact_done_eq [OF observe_done_sum assms(4) a e] m ms by simp
  have "es @ [?x] = hd (es @ [?x]) # tl (es @ [?x])" by simp
  then have "buffer (memory ?s1) = e1 # hd (es @ [?x]) # tl (es @ [?x])" by simp
  then have "learn done_sum_env short_config ?s1
      = Inr (?s1\<lparr>world := (),
                loss := Some (sum_list (compute_targets done_sum_env () (99 / 100)
                          [e1, hd (es @ [?x])]))\<rparr>)"
    by (rule learn_done_sum)
  with i show ?thesis
    by (simp add: train_body_def)
qed

text \<open>
  Claim C10. In a fresh kernel, with at least one episode to run and at least one step
  per episode, if the simulator reports \<open>done\<close> at the very first training step, the
  run ends in \<open>NameError\<close>: the first half of that step raises at the \<^verbatim>\<open>print\<close>, which
  reads \<^verbatim>\<open>loss\<close> before any network update has assigned it, and the variables it
  leaves hold an empty \<^verbatim>\<open>rewards_list\<close>, nothing printed, the memory unchanged and
  \<^verbatim>\<open>loss\<close> still unbound: the episode is not recorded (when the first half of a
  step completes, the variables it leaves are the state it returns). Otherwise, at a step that
  ends an episode, the printed loss is the value \<^verbatim>\<open>loss\<close> had when the step began and
  still has when the line is printed; a network update assigns to \<^verbatim>\<open>loss\<close> exactly
  the loss that \<^verbatim>\<open>sess.run\<close> returns for the sampled batch and its targets, and
  prints and records nothing; hence the loss printed at a step that follows a
  completed step is the loss returned by the update of that previous step, not by the
  update of the step itself, which runs after the line is printed.
\<close>

theorem loss_unbound_at_first_done:
  assumes "2 \<le> train_episodes cfg" and "1 \<le> max_steps cfg"
  shows "(observe co cfg ((train_init x)\<lparr>step := 1\<rparr>) = (p, action, next_state, reward, True, w2)
          \<longrightarrow> train co cfg x = Inl NameError
            \<and> interact co cfg 1 (0, 0, train_init x) = Inl NameError
            \<and> rewards_list (snd (snd (interact_vars co cfg 1 (0, 0, train_init x)))) = []
            \<and> printed (snd (snd (interact_vars co cfg 1 (0, 0, train_init x)))) = []
            \<and> memory (snd (snd (interact_vars co cfg 1 (0, 0, train_init x))))
                = memory (train_init x)
            \<and> loss (snd (snd (interact_vars co cfg 1 (0, 0, train_init x)))) = None)
       \<and> (observe co cfg (s\<lparr>step := step s + 1\<rparr>) = (p', action', next_state', reward', True, w2')
          \<and> loss s = Some l
          \<and> train_body co cfg ep (t, total_reward, s) = Inr (t', total_reward', s')
          \<longrightarrow> printed s' = printed s @ [(ep, total_reward + reward', l, p')]
            \<and> rewards_list s' = rewards_list s @ [(ep, total_reward + reward')]
            \<and> (\<exists>s1. interact co cfg ep (t, total_reward, s) = Inr (t', total_reward', s1)
                   \<and> loss s1 = Some l \<and> learn co cfg s1 = Inr s'))
       \<and> (random_permutation co (world s) (length (buffer (memory s))) = (perm, w1)
          \<and> learn co cfg s = Inr s'
          \<longrightarrow> printed s' = printed s \<and> rewards_list s' = rewards_list s
            \<and> (\<exists>batch. sample (memory s) perm (batch_size cfg) = Inr batch
                   \<and> loss s' = Some (fst (q_update co w1 (map (\<lambda>(s, a, r, ns). s) batch)
                                         (compute_targets co w1 (gamma cfg) batch)
                                         (map (\<lambda>(s, a, r, ns). a) batch)))))
       \<and> (train_body co cfg ep0 (t0, r0, s0) = Inr (t1, r1, s)
          \<and> observe co cfg (s\<lparr>step := step s + 1\<rparr>) = (p', action', next_state', reward', True, w2')
          \<and> train_body co cfg ep (t, total_reward, s) = Inr (t', total_reward', s')
          \<longrightarrow> (\<exists>si perm0 w0 batch.
                 interact co cfg ep0 (t0, r0, s0) = Inr (t1, r1, si)
               \<and> random_permutation co (world si) (length (buffer (memory si))) = (perm0, w0)
               \<and> sample (memory si) perm0 (batch_size cfg) = Inr batch
               \<and> printed s' = printed s @
                   [(ep, total_reward + reward',
                     fst (q_update co w0 (map (\<lambda>(s, a, r, ns). s) batch)
                            (compute_targets co w0 (gamma cfg) batch)
                            (map (\<lambda>(s, a, r, ns). a) batch)),
                     p')]))
       \<and> (interact co cfg ep (t, total_reward, s) = Inr y
          \<longrightarrow> interact_vars co cfg ep (t, total_reward, s) = y)"
proof -
  have done_step: "printed s' = printed s @ [(ep, total_reward + reward', l, p')]
      \<and> rewards_list s' = rewards_list s @ [(ep, total_reward + reward')]
      \<and> (\<exists>s1. interact co cfg ep (t, total_reward, s) = Inr (t', total_reward', s1)
             \<and> loss s1 = Some l \<and> learn co cfg s1 = Inr s')"
    if ob: "observe co cfg (s\<lparr>step := step s + 1\<rparr>)
        = (p', action', next_state', reward', True, w2')"
      and l: "loss s = Some l"
      and b: "train_body co cfg ep (t, total_reward, s) = Inr (t', total_reward', s')"
    for l
  proof -
    from b obtain s1 where i: "interact co cfg ep (t, total_reward, s) = Inr (t', total_reward', s1)"
      and le: "learn co cfg s1 = Inr s'"
      by (rule train_body_Inr)
    from interact_done(5) [OF ob i] l
    have "printed s1 = printed s @ [(ep, total_reward + reward', l, p')]" by simp
    with learn_keeps_log(1) [OF le]
    have 1: "printed s' = printed s @ [(ep, total_reward + reward', l, p')]" by simp
    from interact_done(4) [OF ob i] learn_keeps_log(2) [OF le]
    have 2: "rewards_list s' = rewards_list s @ [(ep, total_reward + reward')]" by simp
    from interact_loss [OF i] l have "loss s1 = Some l" by simp
    with 1 2 i le show ?thesis by blast
  qed
  have A: "observe co cfg ((train_init x)\<lparr>step := 1\<rparr>) = (p, action, next_state, reward, True, w2)
          \<longrightarrow> train co cfg x = Inl NameError
            \<and> interact co cfg 1 (0, 0, train_init x) = Inl NameError
            \<and> rewards_list (snd (snd (interact_vars co cfg 1 (0, 0, train_init x)))) = []
            \<and> printed (snd (snd (interact_vars co cfg 1 (0, 0, train_init x)))) = []
            \<and> memory (snd (snd (interact_vars co cfg 1 (0, 0, train_init x))))
                = memory (train_init x)
            \<and> loss (snd (snd (interact_vars co cfg 1 (0, 0, train_init x)))) = None"
  proof
    assume ob: "observe co cfg ((train_init x)\<lparr>step := 1\<rparr>)
        = (p, action, next_state, reward, True, w2)"
    have st: "step (train_init x) = 0" and lo: "loss (train_init x) = None"
      and rl: "rewards_list (train_init x) = []" and pr: "printed (train_init x) = []"
      by (simp_all add: train_init_def split: prod.splits)
    from ob st have ob': "observe co cfg ((train_init x)\<lparr>step := step (train_init x) + 1\<rparr>)
        = (p, action, next_state, reward, True, w2)" by simp
    from interact_done_unbound [OF ob' lo]
    have i: "interact co cfg 1 (0, 0, train_init x) = Inl NameError" .
    then have "train_body co cfg 1 (0, 0, train_init x) = Inl NameError"
      by (simp add: train_body_def)
    with assms(2) have "train_while co cfg 1 (0, 0, train_init x) = Inl NameError"
      by simp
    moreover from assms(1)
    have "range_py 1 (train_episodes cfg) = 1 # range_py (1 + 1) (train_episodes cfg)"
      by (intro range_py_Cons) simp
    ultimately have tr: "train co cfg x = Inl NameError"
      by (simp add: train_def)
    from interact_vars_unbound [OF ob' lo, of 1 0 0] rl pr lo
    have "rewards_list (snd (snd (interact_vars co cfg 1 (0, 0, train_init x)))) = []"
      "printed (snd (snd (interact_vars co cfg 1 (0, 0, train_init x)))) = []"
      "memory (snd (snd (interact_vars co cfg 1 (0, 0, train_init x)))) = memory (train_init x)"
      "loss (snd (snd (interact_vars co cfg 1 (0, 0, train_init x)))) = None"
      by simp_all
    with tr i show "train co cfg x = Inl NameError
            \<and> interact co cfg 1 (0, 0, train_init x) = Inl NameError
            \<and> rewards_list (snd (snd (interact_vars co cfg 1 (0, 0, train_init x)))) = []
            \<and> printed (snd (snd (interact_vars co cfg 1 (0, 0, train_init x)))) = []
            \<and> memory (snd (snd (interact_vars co cfg 1 (0, 0, train_init x))))
                = memory (train_init x)
            \<and> loss (snd (snd (interact_vars co cfg 1 (0, 0, train_init x)))) = None"
      by simp
  qed
  have B: "observe co cfg (s\<lparr>step := step s + 1\<rparr>) = (p', action', next_state', reward', True, w2')
          \<and> loss s = Some l
          \<and> train_body co cfg ep (t, total_reward, s) = Inr (t', total_reward', s')
          \<longrightarrow> printed s' = printed s @ [(ep, total_reward + reward', l, p')]
            \<and> rewards_list s' = rewards_list s @ [(ep, total_reward + reward')]
            \<and> (\<exists>s1. interact co cfg ep (t, total_reward, s) = Inr (t', total_reward', s1)
                   \<and> loss s1 = Some l \<and> learn co cfg s1 = Inr s')"
    using done_step by blast
  have C: "random_permutation co (world s) (length (buffer (memory s))) = (perm, w1)
          \<and> learn co cfg s = Inr s'
          \<longrightarrow> printed s' = printed s \<and> rewards_list s' = rewards_list s
            \<and> (\<exists>batch. sample (memory s) perm (batch_size cfg) = Inr batch
                   \<and> loss s' = Some (fst (q_update co w1 (map (\<lambda>(s, a, r, ns). s) batch)
                                         (compute_targets co w1 (gamma cfg) batch)
                                         (map (\<lambda>(s, a, r, ns). a) batch))))"
  proof
    assume a: "random_permutation co (world s) (length (buffer (memory s))) = (perm, w1)
          \<and> learn co cfg s = Inr s'"
    then have rp: "random_permutation co (world s) (length (buffer (memory s))) = (perm, w1)"
      and le: "learn co cfg s = Inr s'" by simp_all
    from learn_result [OF rp le] obtain batch where
      "sample (memory s) perm (batch_size cfg) = Inr batch"
      "loss s' = Some (fst (q_update co w1 (map (\<lambda>(s, a, r, ns). s) batch)
                                         (compute_targets co w1 (gamma cfg) batch)
                                         (map (\<lambda>(s, a, r, ns). a) batch)))"
      by auto
    with learn_keeps_log(1,2) [OF le]
    show "printed s' = printed s \<and> rewards_list s' = rewards_list s
            \<and> (\<exists>batch. sample (memory s) perm (batch_size cfg) = Inr batch
                   \<and> loss s' = Some (fst (q_update co w1 (map (\<lambda>(s, a, r, ns). s) batch)
                                         (compute_targets co w1 (gamma cfg) batch)
                                         (map (\<lambda>(s, a, r, ns). a) batch))))"
      by blast
  qed
  have E: "train_body co cfg ep0 (t0, r0, s0) = Inr (t1, r1, s)
          \<and> observe co cfg (s\<lparr>step := step s + 1\<rparr>) = (p', action', next_state', reward', True, w2')
          \<and> train_body co cfg ep (t, total_reward, s) = Inr (t', total_reward', s')
          \<longrightarrow> (\<exists>si perm0 w0 batch.
                 interact co cfg ep0 (t0, r0, s0) = Inr (t1, r1, si)
               \<and> random_permutation co (world si) (length (buffer (memory si))) = (perm0, w0)
               \<and> sample (memory si) perm0 (batch_size cfg) = Inr batch
               \<and> printed s' = printed s @
                   [(ep, total_reward + reward',
                     fst (q_update co w0 (map (\<lambda>(s, a, r, ns). s) batch)
                            (compute_targets co w0 (gamma cfg) batch)
                            (map (\<lambda>(s, a, r, ns). a) batch)),
                     p')])"
  proof
    assume a: "train_body co cfg ep0 (t0, r0, s0) = Inr (t1, r1, s)
          \<and> observe co cfg (s\<lparr>step := step s + 1\<rparr>) = (p', action', next_state', reward', True, w2')
          \<and> train_body co cfg ep (t, total_reward, s) = Inr (t', total_reward', s')"
    then have prev: "train_body co cfg ep0 (t0, r0, s0) = Inr (t1, r1, s)"
      and ob: "observe co cfg (s\<lparr>step := step s + 1\<rparr>)
          = (p', action', next_state', reward', True, w2')"
      and b: "train_body co cfg ep (t, total_reward, s) = Inr (t', total_reward', s')"
      by simp_all
    from prev obtain si where i0: "interact co cfg ep0 (t0, r0, s0) = Inr (t1, r1, si)"
      and l0: "learn co cfg si = Inr s"
      by (rule train_body_Inr)
    obtain perm0 w0 where
      rp: "random_permutation co (world si) (length (buffer (memory si))) = (perm0, w0)"
      by (cases "random_permutation co (world si) (length (buffer (memory si)))")
    from learn_result [OF rp l0] obtain batch where
      sm: "sample (memory si) perm0 (batch_size cfg) = Inr batch"
      and lo: "loss s = Some (fst (q_update co w0 (map (\<lambda>(s, a, r, ns). s) batch)
                                         (compute_targets co w0 (gamma cfg) batch)
                                         (map (\<lambda>(s, a, r, ns). a) batch)))"
      by auto
    from done_step [OF ob lo b]
    have "printed s' = printed s @
                   [(ep, total_reward + reward',
                     fst (q_update co w0 (map (\<lambda>(s, a, r, ns). s) batch)
                            (compute_targets co w0 (gamma cfg) batch)
                            (map (\<lambda>(s, a, r, ns). a) batch)),
                     p')]"
      by simp
    with i0 rp sm show "\<exists>si perm0 w0 batch.
                 interact co cfg ep0 (t0, r0, s0) = Inr (t1, r1, si)
               \<and> random_permutation co (world si) (length (buffer (memory si))) = (perm0, w0)
               \<and> sample (memory si) perm0 (batch_size cfg) = Inr batch
               \<and> printed s' = printed s @
                   [(ep, total_reward + reward',
                     fst (q_update co w0 (map (\<lambda>(s, a, r, ns). s) batch)
                            (compute_targets co w0 (gamma cfg) batch)
                            (map (\<lambda>(s, a, r, ns). a) batch)),
                     p')]"
      by blast
  qed
  have F: "interact co cfg ep (t, total_reward, s) = Inr y
          \<longrightarrow> interact_vars co cfg ep (t, total_reward, s) = y"
    by (simp add: interact_Inr_vars)
  from A B C E F show ?thesis by blast
qed


theorem loss_unbound_at_first_done_witness:
  "2 \<le> train_episodes short_config \<and> 1 \<le> max_steps short_config
   \<and> observe done_sum_env short_config
        ((train_init ((), Memory_init 5, [5, 6, 7, 8]))\<lparr>step := 1\<rparr>)
       = (1, 0, [1, 2, 3, 4], 1, True, ())
   \<and> train done_sum_env short_config ((), Memory_init 5, [5, 6, 7, 8]) = Inl NameError
   \<and> rewards_list (snd (snd (interact_vars done_sum_env short_config 1
        (0, 0, train_init ((), Memory_init 5, [5, 6, 7, 8]))))) = []
   \<and> train_body done_sum_env short_config 4
        (0, 10, \<lparr>world = (), memory = \<lparr>buffer = [([0, 0, 0, 0], 0, 1, [5, 6, 7, 8])], maxlen = 5\<rparr>,
                  state = [5, 6, 7, 8], step = 7, loss = Some 3, rewards_list = [],
                  printed = []\<rparr>)
       = Inr (2, 11, \<lparr>world = (),
                      memory = \<lparr>buffer = [([0, 0, 0, 0], 0, 1, [5, 6, 7, 8]),
                                          ([5, 6, 7, 8], 0, 1, [0, 0, 0, 0])], maxlen = 5\<rparr>,
                      state = [1, 2, 3, 4], step = 8, loss = Some (199 / 50),
                      rewards_list = [(4, 11)], printed = [(4, 11, 3, 1)]\<rparr>)
   \<and> train_body done_sum_env short_config 5
        (0, 0, \<lparr>world = (),
                      memory = \<lparr>buffer = [([0, 0, 0, 0], 0, 1, [5, 6, 7, 8]),
                                          ([5, 6, 7, 8], 0, 1, [0, 0, 0, 0])], maxlen = 5\<rparr>,
                      state = [1, 2, 3, 4], step = 8, loss = Some (199 / 50),
                      rewards_list = [(4, 11)], printed = [(4, 11, 3, 1)]\<rparr>)
       = Inr (2, 1, \<lparr>world = (),
                      memory = \<lparr>buffer = [([0, 0, 0, 0], 0, 1, [5, 6, 7, 8]),
                                          ([5, 6, 7, 8], 0, 1, [0, 0, 0, 0]),
                                          ([1, 2, 3, 4], 0, 1, [0, 0, 0, 0])], maxlen = 5\<rparr>,
                      state = [1, 2, 3, 4], step = 9, loss = Some (199 / 50),
                      rewards_list = [(4, 11), (5, 1)],
                      printed = [(4, 11, 3, 1), (5, 1, 199 / 50, 1)]\<rparr>)"
proof -
  let ?x = "((), Memory_init 5, [5, 6, 7, 8]) :: unit \<times> experience Memory \<times> obs"
  let ?e0 = "([0, 0, 0, 0], 0, 1, [5, 6, 7, 8]) :: experience"
  let ?e1 = "([5, 6, 7, 8], 0, 1, [0, 0, 0, 0]) :: experience"
  let ?e2 = "([1, 2, 3, 4], 0, 1, [0, 0, 0, 0]) :: experience"
  let ?S0 = "\<lparr>world = (), memory = \<lparr>buffer = [?e0], maxlen = 5\<rparr>,
              state = [5, 6, 7, 8], step = 7, loss = Some 3, rewards_list = [],
              printed = []\<rparr> :: unit train_state"
  let ?S1 = "\<lparr>world = (), memory = \<lparr>buffer = [?e0, ?e1], maxlen = 5\<rparr>,
              state = [1, 2, 3, 4], step = 8, loss = Some (199 / 50),
              rewards_list = [(4, 11)], printed = [(4, 11, 3, 1)]\<rparr> :: unit train_state"
  let ?S2 = "\<lparr>world = (), memory = \<lparr>buffer = [?e0, ?e1, ?e2], maxlen = 5\<rparr>,
              state = [1, 2, 3, 4], step = 9, loss = Some (199 / 50),
              rewards_list = [(4, 11), (5, 1)],
              printed = [(4, 11, 3, 1), (5, 1, 199 / 50, 1)]\<rparr> :: unit train_state"
  have h: "2 \<le> train_episodes short_config" "1 \<le> max_steps short_config"
    by (simp_all add: short_config_def)
  have tg: "sum_list (compute_targets done_sum_env () (99 / 100) [?e0, ?e1]) = 199 / 50"
    by (simp add: compute_targets_def done_sum_env_def)
  have b1: "train_body done_sum_env short_config 4 (0, 10, ?S0) = Inr (2, 11, ?S1)"
    by (simp add: train_body_done_sum [where ?e1.0 = ?e0 and es = "[]" and l = 3]
        np_zeros_def tg)
  have b2: "train_body done_sum_env short_config 5 (0, 0, ?S1) = Inr (2, 1, ?S2)"
    by (simp add: train_body_done_sum [where ?e1.0 = ?e0 and es = "[?e1]" and l = "199 / 50"]
        np_zeros_def tg)
  note ob0 = observe_done_sum [of "(train_init ?x)\<lparr>step := 1\<rparr>"]
  note ob1 = observe_done_sum [of "?S1\<lparr>step := step ?S1 + 1\<rparr>"]
  note w = loss_unbound_at_first_done [OF h, where co = done_sum_env and x = ?x
      and p = 1 and action = 0 and next_state = "[1, 2, 3, 4]" and reward = 1 and ?w2.0 = "()"
      and s = ?S1 and p' = 1 and action' = 0 and next_state' = "[1, 2, 3, 4]" and reward' = 1
      and w2' = "()" and l = "199 / 50" and ep = 5 and t = 0 and total_reward = 0
      and t' = 2 and total_reward' = 1 and s' = ?S2
      and ?ep0.0 = 4 and ?t0.0 = 0 and ?r0.0 = 10 and ?s0.0 = ?S0 and ?t1.0 = 2 and ?r1.0 = 11
      and perm = "[0, 1]" and ?w1.0 = "()" and y = "(2, 1, ?S2)"]
  from w ob0
  have n: "train done_sum_env short_config ?x = Inl NameError"
    and r: "rewards_list (snd (snd (interact_vars done_sum_env short_config 1
        (0, 0, train_init ?x)))) = []"
    by blast+
  from w ob1 b1 b2 have "\<exists>si perm0 w0 batch.
      interact done_sum_env short_config 4 (0, 10, ?S0) = Inr (2, 11, si)
      \<and> random_permutation done_sum_env (world si) (length (buffer (memory si))) = (perm0, w0)
      \<and> sample (memory si) perm0 (batch_size short_config) = Inr batch
      \<and> printed ?S2 = printed ?S1 @
           [(5, 0 + 1,
             fst (q_update done_sum_env w0 (map (\<lambda>(s, a, r, ns). s) batch)
                    (compute_targets done_sum_env w0 (gamma short_config) batch)
                    (map (\<lambda>(s, a, r, ns). a) batch)),
             1)]"
    by blast
  with h ob0 n r b1 b2 show ?thesis by simp
qed

lemma observe_zero_state:
  "observe zero_state_env short_config s = (1, 0, [0, 0, 0, 0], 1, False, ())"
  by (simp add: observe_def select_action_def explore_prob_def zero_state_env_def
      short_config_def)

lemma populate_zero_state:
  "populate zero_state_env short_config ()
     = ((), \<lparr>buffer = [([0, 0, 0, 0], 0, 1, [0, 0, 0, 0]), ([0, 0, 0, 0], 0, 1, [0, 0, 0, 0])],
             maxlen = 5\<rparr>, [0, 0, 0, 0])"
  by (simp add: populate_def pretrain_body_def pretrain_observe_def zero_state_env_def
      short_config_def Memory_init_def add_def deque_append_def numeral_2_eq_2)


lemma train_body_zero_state:
  assumes "1 \<le> length (buffer (memory s))" and "maxlen (memory s) = 5"
  shows "train_body zero_state_env short_config ep (t, total_reward, s)
       = Inr (t + 1, total_reward + 1,
              s\<lparr>step := step s + 1,
                memory := add (memory s) (state s, 0, 1, [0, 0, 0, 0]),
                world := (), state := [0, 0, 0, 0], loss := Some 0\<rparr>)"
proof -
  have "2 \<le> length (buffer (add (memory s) (state s, 0, 1, [0, 0, 0, 0])))"
    using assms by (simp add: length_add)
  then show ?thesis
    by (simp add: train_body_def interact_not_done [OF observe_zero_state] learn_concrete)
qed

text \<open>
  Claim C6 says that the pair \<open>(episode, total_reward)\<close> is recorded also when an
  episode ends because \<open>t\<close> reaches \<^verbatim>\<open>max_steps\<close>. The code records it in the
  \<^verbatim>\<open>if done:\<close> branch only. In the world \<open>zero_state_env\<close>, whose simulator never
  reports \<open>done\<close>, with \<open>max_steps = 2\<close> and \<open>train_episodes = 3\<close>, the run
  takes the four steps of its two episodes, both ended by \<open>t\<close> reaching
  \<^verbatim>\<open>max_steps\<close>, and finishes with \<^verbatim>\<open>rewards_list\<close> empty and nothing printed.
\<close>

theorem episode_timeout_not_logged:
  "program zero_state_env short_config ()
     = Inr \<lparr>world = (),
            memory = \<lparr>buffer = replicate 5 ([0, 0, 0, 0], 0, 1, [0, 0, 0, 0]), maxlen = 5\<rparr>,
            state = [0, 0, 0, 0], step = 4, loss = Some 0,
            rewards_list = [], printed = []\<rparr>"
proof -
  have r: "range_py 1 (train_episodes short_config) = [1, 2]"
    by (simp add: range_py_def short_config_def upto_rec1)
  have m: "max_steps short_config = 2" by (simp add: short_config_def)
  show ?thesis
    by (simp add: program_def populate_zero_state train_def train_init_def r m
        train_body_zero_state add_def deque_append_def numeral_eq_Suc)
qed

end
